theory Spec2Isabelle
  imports Complex_Main
begin

section \<open>Python primitives used by \<^verbatim>\<open>app_windows.py\<close>\<close>

text \<open>
  Strings are lists of 8-bit code points. Python floats are modelled by exact rationals:
  every finite float is a rational number, and the model computes \<open>+\<close>, \<open>-\<close>, \<open>*\<close>,
  \<open>/\<close>, \<open>//\<close> and \<open>%\<close> without rounding. Integers that count things (indices, word
  counts) are naturals.
\<close>

datatype error = ZeroDivisionError

text \<open>\<^verbatim>\<open>a / b\<close> on floats raises when the divisor is zero.\<close>

definition py_truediv :: "rat \<Rightarrow> rat \<Rightarrow> error + rat" where
  "py_truediv a b = (if b = 0 then Inl ZeroDivisionError else Inr (a / b))"

text \<open>\<^verbatim>\<open>a // b\<close> and \<^verbatim>\<open>a % b\<close> for a positive literal divisor \<open>b\<close>:
  the quotient is rounded towards minus infinity and the remainder has the sign of \<open>b\<close>.\<close>

definition py_floordiv :: "rat \<Rightarrow> rat \<Rightarrow> rat" where
  "py_floordiv a b = of_int \<lfloor>a / b\<rfloor>"

definition py_mod :: "rat \<Rightarrow> rat \<Rightarrow> rat" where
  "py_mod a b = a - b * of_int \<lfloor>a / b\<rfloor>"

text \<open>\<^verbatim>\<open>int(x)\<close> truncates towards zero.\<close>

definition py_int :: "rat \<Rightarrow> int" where
  "py_int x = (if 0 \<le> x then \<lfloor>x\<rfloor> else \<lceil>x\<rceil>)"

text \<open>The characters \<^verbatim>\<open>str.split()\<close> and \<^verbatim>\<open>str.strip()\<close> treat as whitespace
  (code points below 256).\<close>

definition is_space :: "char \<Rightarrow> bool" where
  "is_space c \<longleftrightarrow> c \<in> set [CHR 0x09, CHR 0x0A, CHR 0x0B, CHR 0x0C, CHR 0x0D,
      CHR 0x1C, CHR 0x1D, CHR 0x1E, CHR 0x1F, CHR 0x20, CHR 0x85, CHR 0xA0]"

text \<open>\<^verbatim>\<open>s.split()\<close>: the maximal runs of non-whitespace characters, in order.
  \<open>cur\<close> is the word being read.\<close>

fun split_from :: "string \<Rightarrow> string \<Rightarrow> string list" where
  "split_from cur [] = (if cur = [] then [] else [cur])"
| "split_from cur (c # cs) =
     (if is_space c then (if cur = [] then split_from [] cs else cur # split_from [] cs)
      else split_from (cur @ [c]) cs)"

definition split_ws :: "string \<Rightarrow> string list" where
  "split_ws s = split_from [] s"

text \<open>\<^verbatim>\<open>s.strip()\<close>: leading and trailing whitespace removed.\<close>

definition strip :: "string \<Rightarrow> string" where
  "strip s = rev (dropWhile is_space (rev (dropWhile is_space s)))"

text \<open>\<^verbatim>\<open>sep.join(parts)\<close>.\<close>

fun join :: "string \<Rightarrow> string list \<Rightarrow> string" where
  "join sep [] = []"
| "join sep [x] = x"
| "join sep (x # y # ys) = x @ sep @ join sep (y # ys)"

text \<open>Decimal rendering of a natural number, as \<^verbatim>\<open>str(n)\<close> gives it.\<close>

definition digit_char :: "nat \<Rightarrow> char" where
  "digit_char d = char_of (48 + d)"

fun str_nat :: "nat \<Rightarrow> string" where
  "str_nat n = (if n < 10 then [digit_char n] else str_nat (n div 10) @ [digit_char (n mod 10)])"

declare str_nat.simps [simp del]

text \<open>The format specification \<^verbatim>\<open>{n:0w}\<close> for an integer: the digits are padded with
  zeros on the left to \<open>w\<close> characters; a minus sign counts towards the width and stays
  in front of the zeros.\<close>

definition zero_pad :: "nat \<Rightarrow> string \<Rightarrow> string" where
  "zero_pad w s = replicate (w - length s) (CHR ''0'') @ s"

definition format_int :: "nat \<Rightarrow> int \<Rightarrow> string" where
  "format_int w n =
     (if n < 0 then CHR ''-'' # zero_pad (w - 1) (str_nat (nat (- n)))
      else zero_pad w (str_nat (nat n)))"

section \<open>Time formatting\<close>

text \<open>
  \<^verbatim>\<open>
  def format_srt_time(seconds):
      hours = int(seconds // 3600)
      minutes = int((seconds % 3600) // 60)
      secs = int(seconds % 60)
      millis = int((seconds % 1) * 1000)
      return f"{hours:02}:{minutes:02}:{secs:02},{millis:03}"
  \<close>
\<close>

definition format_srt_time :: "rat \<Rightarrow> string" where
  "format_srt_time seconds =
     (let hours = py_int (py_floordiv seconds 3600);
          minutes = py_int (py_floordiv (py_mod seconds 3600) 60);
          secs = py_int (py_mod seconds 60);
          millis = py_int (py_mod seconds 1 * 1000)
      in format_int 2 hours @ '':'' @ format_int 2 minutes @ '':'' @ format_int 2 secs
         @ '','' @ format_int 3 millis)"


section \<open>Probing the audio duration\<close>

text \<open>
  \<^verbatim>\<open>
  def get_audio_duration(audio_path):
      try:
          cmd = ['ffprobe', ...]
          result = subprocess.run(cmd, capture_output=True, text=True, timeout=10)
          if result.returncode == 0:
              return float(result.stdout.strip()), None
          else:
              return 60.0, None
      except:
          return 60.0, None
  \<close>
  What \<^verbatim>\<open>subprocess.run\<close> did is an input of the model: it raised (the tool is
  missing, or the timeout expired), or it completed with a return code and the text the
  tool printed. \<^verbatim>\<open>float\<close> is a parameter; \<open>None\<close> stands for its \<^verbatim>\<open>ValueError\<close>,
  which the bare \<^verbatim>\<open>except\<close> catches as well.
\<close>

datatype run_outcome = Raised | Completed int string

definition get_audio_duration :: "(string \<Rightarrow> rat option) \<Rightarrow> run_outcome \<Rightarrow> rat \<times> string option" where
  "get_audio_duration float outcome =
     (case outcome of
        Raised \<Rightarrow> (60, None)
      | Completed returncode stdout \<Rightarrow>
          if returncode = 0 then
            (case float (strip stdout) of Some d \<Rightarrow> (d, None) | None \<Rightarrow> (60, None))
          else (60, None))"

section \<open>Sentence segmentation\<close>

text \<open>\<^verbatim>\<open>re.split(r'(?<=[.!?]) +', s)\<close>: the string is cut at every maximal run of
  spaces that follows one of the marks \<open>.\<close>, \<open>!\<close>, \<open>?\<close>; the run is removed.
  \<open>in_match\<close> says that the scan is inside such a run, \<open>after_mark\<close> that the previous
  character is a mark, \<open>cur\<close> is the piece being read.\<close>

fun re_split_from :: "bool \<Rightarrow> bool \<Rightarrow> string \<Rightarrow> string \<Rightarrow> string list" where
  "re_split_from in_match after_mark cur [] = [cur]"
| "re_split_from in_match after_mark cur (c # cs) =
     (if c = CHR '' '' \<and> in_match then re_split_from True False cur cs
      else if c = CHR '' '' \<and> after_mark then cur # re_split_from True False [] cs
      else re_split_from False (c \<in> set ''.!?'') (cur @ [c]) cs)"

definition re_split_sentences :: "string \<Rightarrow> string list" where
  "re_split_sentences s = re_split_from False False [] s"

text \<open>
  \<^verbatim>\<open>
  def split_text_into_sentences(text):
      if not text or not text.strip():
          return []
      if NLTK_AVAILABLE:
          sentences = nltk.sent_tokenize(text)
          return [s.strip() for s in sentences if s.strip()]
      else:
          sentences = re.split(r'(?<=[.!?]) +', text.strip())
          return [s.strip() for s in sentences if s.strip()]
  \<close>
  The flag \<^verbatim>\<open>NLTK_AVAILABLE\<close> and the tokenizer of the library are parameters.
\<close>

definition split_text_into_sentences :: "bool \<Rightarrow> (string \<Rightarrow> string list) \<Rightarrow> string \<Rightarrow> string list" where
  "split_text_into_sentences nltk_available sent_tokenize text =
     (if text = [] \<or> strip text = [] then []
      else if nltk_available then
        (let sentences = sent_tokenize text
         in [strip s. s \<leftarrow> sentences, strip s \<noteq> []])
      else
        (let sentences = re_split_sentences (strip text)
         in [strip s. s \<leftarrow> sentences, strip s \<noteq> []]))"

section \<open>Duration estimate\<close>


section \<open>Lines and blocks\<close>

text \<open>\<^verbatim>\<open>xs[i:j]\<close> for \<open>0 \<le> i \<le> j\<close>, and the indices of \<^verbatim>\<open>range(0, n, k)\<close> for a
  positive step \<open>k\<close>.\<close>

definition slice :: "'a list \<Rightarrow> nat \<Rightarrow> nat \<Rightarrow> 'a list" where
  "slice xs i j = take (j - i) (drop i xs)"

definition range_step :: "nat \<Rightarrow> nat \<Rightarrow> nat list" where
  "range_step n k = map (\<lambda>j. j * k) [0..<(n + k - 1) div k]"

type_synonym block = "string list"

text \<open>
  \<^verbatim>\<open>
  def split_long_sentence(sentence, max_chars=42):
      words = sentence.split()
      if len(words) >= 8:
          subtitle_blocks = []
          for i in range(0, len(words), 8):
              block_words = words[i:i+8]
              if len(block_words) >= 4:
                  line1 = " ".join(block_words[:4])
                  line2 = " ".join(block_words[4:8])
                  subtitle_blocks.append([line1, line2])
          return subtitle_blocks
      elif len(words) >= 4:
          line1 = " ".join(words[:4])
          line2 = " ".join(words[4:8]) if len(words) > 4 else ""
          return [[line1, line2]]
      else:
          line1 = " ".join(words)
          return [[line1, ""]]
  \<close>
  The parameter \<^verbatim>\<open>max_chars\<close> is never read.
\<close>

definition window_step :: "string list \<Rightarrow> block list \<Rightarrow> nat \<Rightarrow> block list" where
  "window_step words subtitle_blocks i =
     (let block_words = slice words i (i + 8)
      in if 4 \<le> length block_words then
           (let line1 = join '' '' (slice block_words 0 4);
                line2 = join '' '' (slice block_words 4 8)
            in subtitle_blocks @ [[line1, line2]])
         else subtitle_blocks)"

definition split_long_sentence :: "string \<Rightarrow> block list" where
  "split_long_sentence sentence =
     (let words = split_ws sentence
      in if 8 \<le> length words then
           foldl (window_step words) [] (range_step (length words) 8)
         else if 4 \<le> length words then
           (let line1 = join '' '' (slice words 0 4);
                line2 = (if 4 < length words then join '' '' (slice words 4 8) else [])
            in [[line1, line2]])
         else
           (let line1 = join '' '' words
            in [[line1, []]]))"

text \<open>
  \<^verbatim>\<open>
  def split_into_fixed_chunks(text, chunk_size=4):
      words = text.split()
      return [' '.join(words[i:i+chunk_size]) for i in range(0, len(words), chunk_size)]

  def group_chunks(chunks, lines_per_block=2):
      return [chunks[i:i+lines_per_block] for i in range(0, len(chunks), lines_per_block)]
  \<close>
  The sizes are naturals; \<^verbatim>\<open>range\<close> raises \<^verbatim>\<open>ValueError\<close> on a zero step.
\<close>

datatype range_error = ValueError

definition split_into_fixed_chunks :: "string \<Rightarrow> nat \<Rightarrow> range_error + string list" where
  "split_into_fixed_chunks text chunk_size =
     (let words = split_ws text
      in if chunk_size = 0 then Inl ValueError
         else Inr [join '' '' (slice words i (i + chunk_size)). i \<leftarrow> range_step (length words) chunk_size])"

definition group_chunks :: "string list \<Rightarrow> nat \<Rightarrow> range_error + block list" where
  "group_chunks chunks lines_per_block =
     (if lines_per_block = 0 then Inl ValueError
      else Inr [slice chunks i (i + lines_per_block). i \<leftarrow> range_step (length chunks) lines_per_block])"

section \<open>The timeline synchronizer\<close>



text \<open>
  The first pass adds up the clamped estimates of all blocks:
  \<^verbatim>\<open>
      total_estimated_duration = 0
      for sentence in sentences:
          subtitle_blocks = split_long_sentence(sentence)
          for block in subtitle_blocks:
              total_words = len(" ".join(block).split())
              wps = wpm / 60
              duration = total_words / wps
              duration = max(duration, 1.5)
              duration = min(duration, 6.0)
              total_estimated_duration += duration
  \<close>
  The division raises for \<^verbatim>\<open>wpm = 0\<close> at the first block.
\<close>

fun estimate_blocks :: "rat \<Rightarrow> block list \<Rightarrow> rat \<Rightarrow> error + rat" where
  "estimate_blocks wpm [] total_estimated_duration = Inr total_estimated_duration"
| "estimate_blocks wpm (block # rest) total_estimated_duration =
     (let total_words = length (split_ws (join '' '' block));
          wps = wpm / 60
      in case py_truediv (of_nat total_words) wps of
           Inl e \<Rightarrow> Inl e
         | Inr duration \<Rightarrow>
             (let duration = max duration (3 / 2);
                  duration = min duration 6
              in estimate_blocks wpm rest (total_estimated_duration + duration)))"

fun estimate_total :: "rat \<Rightarrow> string list \<Rightarrow> rat \<Rightarrow> error + rat" where
  "estimate_total wpm [] total_estimated_duration = Inr total_estimated_duration"
| "estimate_total wpm (sentence # rest) total_estimated_duration =
     (case estimate_blocks wpm (split_long_sentence sentence) total_estimated_duration of
        Inl e \<Rightarrow> Inl e
      | Inr t \<Rightarrow> estimate_total wpm rest t)"





text \<open>Names for what the statements below talk about: the blocks of all sentences in
  order, the number of words the loops count in a block, the estimate before clamping, the
  clamped estimate, and the sum of the clamped estimates.\<close>

definition all_blocks :: "string list \<Rightarrow> block list" where
  "all_blocks sentences = concat (map split_long_sentence sentences)"









section \<open>The smart and the dummy variant\<close>

text \<open>
  Both functions first check the uploaded files, read the text and convert the audio;
  the model starts where the text and (for the smart variant) the probed duration are
  known. The report is the first component of the returned pair, the artifact (the text
  written to the \<^verbatim>\<open>.srt\<close> file) the second. An exception is caught by the
  function itself and reported.
  \<^verbatim>\<open>
          audio_duration, _ = get_audio_duration(audio_path)
          chunks = split_into_fixed_chunks(text, 4)
          if not chunks:
              return "No text chunks found in the text.", None
          blocks = group_chunks(chunks, 2)
          block_count = len(blocks)
          min_block_duration = 2.0
          total_min_duration = min_block_duration * block_count
          if audio_duration < total_min_duration:
              duration_per_block = min_block_duration
              total_duration = duration_per_block * block_count
          else:
              duration_per_block = audio_duration / block_count
              total_duration = audio_duration
          srt = ""
          for i, block in enumerate(blocks):
              start = i * duration_per_block
              end = (i + 1) * duration_per_block
              if i == block_count - 1:
                  end = total_duration
              srt += f"{i+1}\n"
              srt += f"{format_srt_time(start)} --> {format_srt_time(end)}\n"
              srt += '\n'.join(block) + "\n\n"
          ...
          return f"Smart Alignment Complete!\n\n{srt}", temp_srt_path
  \<close>
\<close>

datatype report =
  NoTextChunks
  | ErrorReport range_error
  | SmartComplete string
  | DummyComplete string

fun smart_loop :: "rat \<Rightarrow> rat \<Rightarrow> nat \<Rightarrow> (nat \<times> block) list \<Rightarrow> string \<Rightarrow> string" where
  "smart_loop duration_per_block total_duration block_count [] srt = srt"
| "smart_loop duration_per_block total_duration block_count ((i, block) # rest) srt =
     (let start = of_nat i * duration_per_block;
          end_time = (of_nat i + 1) * duration_per_block;
          end_time = (if int i = int block_count - 1 then total_duration else end_time);
          srt = srt @ str_nat (i + 1) @ [CHR 0x0A];
          srt = srt @ format_srt_time start @ '' --> '' @ format_srt_time end_time @ [CHR 0x0A];
          srt = srt @ join [CHR 0x0A] block @ [CHR 0x0A, CHR 0x0A]
      in smart_loop duration_per_block total_duration block_count rest srt)"

text \<open>The duration of a block and the total, as the \<^verbatim>\<open>if\<close> between
  \<^verbatim>\<open>block_count = len(blocks)\<close> and the loop sets them. The block count is positive
  there, since the chunk list is not empty.\<close>

definition smart_schedule :: "rat \<Rightarrow> nat \<Rightarrow> rat \<times> rat" where
  "smart_schedule audio_duration block_count =
     (let min_block_duration = 2;
          total_min_duration = min_block_duration * of_nat block_count
      in if audio_duration < total_min_duration then
           (let duration_per_block = min_block_duration;
                total_duration = duration_per_block * of_nat block_count
            in (duration_per_block, total_duration))
         else
           (let duration_per_block = audio_duration / of_nat block_count;
                total_duration = audio_duration
            in (duration_per_block, total_duration)))"

definition smart_align_text_with_audio :: "rat \<Rightarrow> string \<Rightarrow> report \<times> string option" where
  "smart_align_text_with_audio audio_duration text =
     (case split_into_fixed_chunks text 4 of
        Inl e \<Rightarrow> (ErrorReport e, None)
      | Inr chunks \<Rightarrow>
          if chunks = [] then (NoTextChunks, None)
          else
            (case group_chunks chunks 2 of
               Inl e \<Rightarrow> (ErrorReport e, None)
             | Inr blocks \<Rightarrow>
                 (let block_count = length blocks;
                      (duration_per_block, total_duration) =
                        smart_schedule audio_duration block_count;
                      srt = smart_loop duration_per_block total_duration block_count
                              (enumerate 0 blocks) []
                  in (SmartComplete srt, Some srt))))"

text \<open>
  The dummy variant does not probe:
  \<^verbatim>\<open>
          chunks = split_into_fixed_chunks(text, 4)
          if not chunks:
              return "No text chunks found in the text.", None
          blocks = group_chunks(chunks, 2)
          block_count = len(blocks)
          min_block_duration = 2.0
          total_min_duration = min_block_duration * block_count
          total_time = 60.0
          if total_time < total_min_duration:
              duration_per_block = min_block_duration
              total_duration = duration_per_block * block_count
          else:
              duration_per_block = total_time / block_count
              total_duration = total_time
          srt = ""
          for i, block in enumerate(blocks):
              ... the same loop body ...
          return f"Dummy Alignment Complete!\n\n{srt}", temp_srt_path
  \<close>
\<close>

fun dummy_loop :: "rat \<Rightarrow> rat \<Rightarrow> nat \<Rightarrow> (nat \<times> block) list \<Rightarrow> string \<Rightarrow> string" where
  "dummy_loop duration_per_block total_duration block_count [] srt = srt"
| "dummy_loop duration_per_block total_duration block_count ((i, block) # rest) srt =
     (let start = of_nat i * duration_per_block;
          end_time = (of_nat i + 1) * duration_per_block;
          end_time = (if int i = int block_count - 1 then total_duration else end_time);
          srt = srt @ str_nat (i + 1) @ [CHR 0x0A];
          srt = srt @ format_srt_time start @ '' --> '' @ format_srt_time end_time @ [CHR 0x0A];
          srt = srt @ join [CHR 0x0A] block @ [CHR 0x0A, CHR 0x0A]
      in dummy_loop duration_per_block total_duration block_count rest srt)"

definition dummy_schedule :: "nat \<Rightarrow> rat \<times> rat" where
  "dummy_schedule block_count =
     (let min_block_duration = 2;
          total_min_duration = min_block_duration * of_nat block_count;
          total_time = 60
      in if total_time < total_min_duration then
           (let duration_per_block = min_block_duration;
                total_duration = duration_per_block * of_nat block_count
            in (duration_per_block, total_duration))
         else
           (let duration_per_block = total_time / of_nat block_count;
                total_duration = total_time
            in (duration_per_block, total_duration)))"

definition dummy_align_text_with_audio :: "string \<Rightarrow> report \<times> string option" where
  "dummy_align_text_with_audio text =
     (case split_into_fixed_chunks text 4 of
        Inl e \<Rightarrow> (ErrorReport e, None)
      | Inr chunks \<Rightarrow>
          if chunks = [] then (NoTextChunks, None)
          else
            (case group_chunks chunks 2 of
               Inl e \<Rightarrow> (ErrorReport e, None)
             | Inr blocks \<Rightarrow>
                 (let block_count = length blocks;
                      (duration_per_block, total_duration) = dummy_schedule block_count;
                      srt = dummy_loop duration_per_block total_duration block_count
                              (enumerate 0 blocks) []
                  in (DummyComplete srt, Some srt))))"

text \<open>The blocks both variants build from a text, and the text a finished report carries.\<close>

definition blocks_of_text :: "string \<Rightarrow> block list" where
  "blocks_of_text text =
     (case split_into_fixed_chunks text 4 of
        Inl e \<Rightarrow> []
      | Inr chunks \<Rightarrow> (case group_chunks chunks 2 of Inl e \<Rightarrow> [] | Inr blocks \<Rightarrow> blocks))"

definition srt_of_report :: "report \<Rightarrow> string option" where
  "srt_of_report r =
     (case r of
        NoTextChunks \<Rightarrow> None
      | ErrorReport e \<Rightarrow> None
      | SmartComplete srt \<Rightarrow> Some srt
      | DummyComplete srt \<Rightarrow> Some srt)"

text \<open>The text of one subtitle: its number, its time range, its lines and a blank line.\<close>

definition srt_entry_text :: "nat \<Rightarrow> rat \<Rightarrow> rat \<Rightarrow> block \<Rightarrow> string" where
  "srt_entry_text i start end_time block =
     str_nat (i + 1) @ [CHR 0x0A]
     @ format_srt_time start @ '' --> '' @ format_srt_time end_time @ [CHR 0x0A]
     @ join [CHR 0x0A] block @ [CHR 0x0A, CHR 0x0A]"

text \<open>The text of a timeline in which block \<open>i\<close> is shown from \<open>2 * i\<close> to
  \<open>2 * i + 2\<close> seconds.\<close>

definition two_second_srt :: "block list \<Rightarrow> string" where
  "two_second_srt blocks =
     concat (map (\<lambda>(i, block). srt_entry_text i (2 * of_nat i) (2 * of_nat i + 2) block)
       (enumerate 0 blocks))"



section \<open>Properties\<close>

subsection \<open>Arithmetic of the Python operators\<close>




subsection \<open>Time formatting\<close>





subsection \<open>Probing the audio duration\<close>

text \<open>
  Claim C8. When the probe fails (the tool ends with a return code other than 0, or it
  prints something that is not a number) or the tool cannot be run at all (the call
  raises), \<^verbatim>\<open>get_audio_duration\<close> returns the default 60.0 seconds paired with no
  error; it does not raise.
\<close>

theorem get_audio_duration_default:
  "outcome = Raised
   \<or> (\<exists>returncode stdout. outcome = Completed returncode stdout \<and> returncode \<noteq> 0)
   \<or> (\<exists>stdout. outcome = Completed 0 stdout \<and> float (strip stdout) = None)
   \<Longrightarrow> get_audio_duration float outcome = (60, None)"
  by (auto simp: get_audio_duration_def)

theorem get_audio_duration_default_witness:
  "get_audio_duration (\<lambda>s. Some 5) Raised = (60, None)
   \<and> get_audio_duration (\<lambda>s. Some 5) (Completed 1 ''N/A'') = (60, None)
   \<and> get_audio_duration (\<lambda>s. None) (Completed 0 ''N/A'') = (60, None)"
  using get_audio_duration_default [of Raised "\<lambda>s. Some 5"]
    get_audio_duration_default [of "Completed 1 ''N/A''" "\<lambda>s. Some 5"]
    get_audio_duration_default [of "Completed 0 ''N/A''" "\<lambda>s. None"]
  by simp

subsection \<open>Duration estimate\<close>



subsection \<open>Sentence segmentation\<close>

lemma dropWhile_rev_dropWhile_Nil:
  "dropWhile P (rev (dropWhile P s)) = [] \<longleftrightarrow> dropWhile P s = []"
proof (cases "dropWhile P s")
  case Nil
  then show ?thesis by (simp only: rev.simps dropWhile.simps)
next
  case (Cons a as)
  then have "\<not> P a" using hd_dropWhile [of P s] by simp
  then have "dropWhile P (rev (a # as)) \<noteq> []"
    by (simp add: dropWhile_eq_Nil_conv)
  then show ?thesis by (simp add: Cons)
qed

lemma strip_eq_Nil_iff: "strip s = [] \<longleftrightarrow> (\<forall>c\<in>set s. is_space c)"
proof -
  have "strip s = [] \<longleftrightarrow> dropWhile is_space s = []"
    unfolding strip_def rev_is_Nil_conv by (rule dropWhile_rev_dropWhile_Nil)
  then show ?thesis by (simp add: dropWhile_eq_Nil_conv)
qed

lemma strip_not_blank: "strip s \<noteq> [] \<Longrightarrow> \<not> list_all is_space (strip s)"
proof -
  assume ne: "strip s \<noteq> []"
  define d where "d = dropWhile is_space (rev (dropWhile is_space s))"
  have d: "d \<noteq> []" using ne by (simp add: strip_def d_def)
  then have "\<not> is_space (hd d)" unfolding d_def using hd_dropWhile by blast
  moreover have "hd d \<in> set (strip s)" using d by (simp add: strip_def d_def)
  ultimately show ?thesis by (auto simp: list_all_iff)
qed

text \<open>
  Claim C7. Whatever the text, whichever tokenizer is used and whatever the library's
  tokenizer returns, no entry of the result of \<^verbatim>\<open>split_text_into_sentences\<close> is empty
  or consists of whitespace only; and a text that is empty after trimming (that is, one
  made of whitespace only) gives the empty sequence.
\<close>

theorem split_text_into_sentences_no_blank:
  "(\<forall>s \<in> set (split_text_into_sentences nltk_available sent_tokenize text).
      s \<noteq> [] \<and> \<not> list_all is_space s)
   \<and> (strip text = [] \<longrightarrow> split_text_into_sentences nltk_available sent_tokenize text = [])
   \<and> (list_all is_space text \<longrightarrow> split_text_into_sentences nltk_available sent_tokenize text = [])"
  using strip_not_blank
  by (auto simp: split_text_into_sentences_def Let_def strip_eq_Nil_iff list_all_iff)

theorem split_text_into_sentences_no_blank_witness:
  "split_text_into_sentences False (\<lambda>s. []) ''  Hello world!  This is.   ''
     = [''Hello world!'', ''This is.'']
   \<and> \<not> list_all is_space ''Hello world!'' \<and> \<not> list_all is_space ''This is.''
   \<and> split_text_into_sentences True (\<lambda>s. [s, s]) ''   '' = []"
proof -
  have a: "split_text_into_sentences False (\<lambda>s. []) ''  Hello world!  This is.   ''
             = [''Hello world!'', ''This is.'']"
    by code_simp
  have b: "strip ''   '' = []" by code_simp
  show ?thesis
    using split_text_into_sentences_no_blank [of False "\<lambda>s. []" "''  Hello world!  This is.   ''"]
      split_text_into_sentences_no_blank [of True "\<lambda>s. [s, s]" "''   ''"] a b
    by simp
qed

subsection \<open>Lines and blocks\<close>

text \<open>
  Claim C3 asks that every 8-word window of a sentence of at least 8 words gives one
  block and that no word is lost. The loop skips a last window of fewer than 4 words: of
  the nine words below only the first eight reach a block, and the ninth is in none.
\<close>

theorem split_long_sentence_drops_tail:
  "length (split_ws ''a b c d e f g h i'') = 9
   \<and> split_long_sentence ''a b c d e f g h i'' = [[''a b c d'', ''e f g h'']]"
  by code_simp

subsection \<open>The dummy variant against the smart variant\<close>

lemma dummy_loop_eq: "dummy_loop d t n xs srt = smart_loop d t n xs srt"
  by (induction d t n xs srt rule: smart_loop.induct) (simp_all add: Let_def)

lemma dummy_schedule_eq: "dummy_schedule block_count = smart_schedule 60 block_count"
  by (simp add: dummy_schedule_def smart_schedule_def)

text \<open>
  Claim C6. On the same text the dummy variant computes what the smart variant computes
  for a probed duration of 60.0 seconds: the chunks and blocks come from the same two
  calls, the duration of a block and the total are the same, the loop writes the same
  text, and so the artifact and the text in the report are the same (the reports differ
  in their title only).
\<close>

theorem dummy_is_smart_at_60:
  "dummy_schedule block_count = smart_schedule 60 block_count
   \<and> dummy_loop d t n xs srt = smart_loop d t n xs srt
   \<and> snd (dummy_align_text_with_audio text) = snd (smart_align_text_with_audio 60 text)
   \<and> srt_of_report (fst (dummy_align_text_with_audio text))
       = srt_of_report (fst (smart_align_text_with_audio 60 text))
   \<and> (fst (dummy_align_text_with_audio text) = NoTextChunks)
       = (fst (smart_align_text_with_audio 60 text) = NoTextChunks)"
  by (simp add: dummy_schedule_eq dummy_loop_eq dummy_align_text_with_audio_def
      smart_align_text_with_audio_def srt_of_report_def Let_def
      split: sum.splits prod.splits)

subsection \<open>The first pass of the synchronizer\<close>



lemma estimate_blocks_zero: "bs \<noteq> [] \<Longrightarrow> estimate_blocks 0 bs t = Inl ZeroDivisionError"
  by (cases bs) (simp_all add: Let_def py_truediv_def)

lemma estimate_total_zero:
  "all_blocks ss \<noteq> [] \<Longrightarrow> estimate_total 0 ss t = Inl ZeroDivisionError"
proof (induction ss arbitrary: t)
  case Nil
  then show ?case by (simp add: all_blocks_def)
next
  case (Cons s ss)
  show ?case
  proof (cases "split_long_sentence s = []")
    case True
    then show ?thesis using Cons by (simp add: all_blocks_def)
  next
    case False
    then show ?thesis by (simp add: estimate_blocks_zero)
  qed
qed

lemma estimate_total_Inr_wpm:
  "estimate_total wpm ss t = Inr x \<Longrightarrow> all_blocks ss \<noteq> [] \<Longrightarrow> wpm \<noteq> 0"
  using estimate_total_zero by fastforce




subsection \<open>The two loops of the synchronizer\<close>











subsection \<open>The timeline of a pass\<close>
















subsection \<open>The two-second floor of the smart and the dummy variant\<close>

lemma smart_loop_two_seconds:
  "smart_loop 2 (2 * of_nat n) n (enumerate k bs) srt
     = srt @ concat (map (\<lambda>(i, block). srt_entry_text i (2 * of_nat i) (2 * of_nat i + 2) block)
               (enumerate k bs))"
proof (induction bs arbitrary: k srt)
  case Nil
  then show ?case by simp
next
  case (Cons b bs)
  have e: "(if int k = int n - 1 then 2 * of_nat n else (of_nat k + 1) * 2)
             = 2 * of_nat k + (2::rat)"
    by (auto simp: algebra_simps)
  have step: "smart_loop 2 (2 * of_nat n) n (enumerate k (b # bs)) srt
          = smart_loop 2 (2 * of_nat n) n (enumerate (Suc k) bs)
              (srt @ srt_entry_text k (2 * of_nat k) (2 * of_nat k + 2) b)"
    by (simp only: enumerate_simps smart_loop.simps Let_def e srt_entry_text_def append_assoc
        mult.commute [of "of_nat k" "2::rat"])
  note step
  also have "smart_loop 2 (2 * of_nat n) n (enumerate (Suc k) bs)
               (srt @ srt_entry_text k (2 * of_nat k) (2 * of_nat k + 2) b)
             = (srt @ srt_entry_text k (2 * of_nat k) (2 * of_nat k + 2) b)
               @ concat (map (\<lambda>(i, block). srt_entry_text i (2 * of_nat i) (2 * of_nat i + 2) block)
                   (enumerate (Suc k) bs))"
    by (rule Cons.IH)
  also have "\<dots> = srt @ concat (map (\<lambda>(i, block).
                 srt_entry_text i (2 * of_nat i) (2 * of_nat i + 2) block) (enumerate k (b # bs)))"
    by (simp only: enumerate_simps list.map concat.simps prod.case append_assoc)
  finally show ?case .
qed

lemma range_step_Nil: "0 < k \<Longrightarrow> range_step n k = [] \<longleftrightarrow> n = 0"
proof -
  assume k: "0 < k"
  have "(n + k - 1) div k = 0 \<longleftrightarrow> n = 0"
    using k by (auto simp: div_eq_0_iff)
  then show ?thesis by (simp add: range_step_def)
qed

lemma blocks_of_text_unfold:
  obtains chunks where "split_into_fixed_chunks txt 4 = Inr chunks"
    and "group_chunks chunks 2 = Inr (blocks_of_text txt)"
    and "chunks = [] \<longleftrightarrow> blocks_of_text txt = []"
proof -
  define chunks where
    "chunks = [join '' '' (slice (split_ws txt) i (i + 4)). i \<leftarrow> range_step (length (split_ws txt)) 4]"
  have 1: "split_into_fixed_chunks txt 4 = Inr chunks"
    by (simp add: split_into_fixed_chunks_def Let_def chunks_def)
  have b: "blocks_of_text txt = [slice chunks i (i + 2). i \<leftarrow> range_step (length chunks) 2]"
    by (simp add: blocks_of_text_def 1 group_chunks_def)
  have 2: "group_chunks chunks 2 = Inr (blocks_of_text txt)"
    by (simp add: b group_chunks_def)
  have 3: "chunks = [] \<longleftrightarrow> blocks_of_text txt = []"
    by (simp add: b range_step_Nil)
  show ?thesis using that 1 2 3 by blast
qed

lemma two_second_srt_last:
  assumes "blocks \<noteq> []"
  shows "two_second_srt blocks
           = two_second_srt (butlast blocks)
             @ srt_entry_text (length blocks - 1) (2 * of_nat (length blocks) - 2)
                 (2 * of_nat (length blocks)) (last blocks)"
proof -
  define m where "m = length (butlast blocks)"
  have len: "length blocks = Suc m"
    using assms by (simp add: m_def)
  have "two_second_srt (butlast blocks @ [last blocks])
          = two_second_srt (butlast blocks)
            @ srt_entry_text m (2 * of_nat m) (2 * of_nat m + 2) (last blocks)"
    by (simp add: two_second_srt_def enumerate_append_eq m_def)
  moreover have "butlast blocks @ [last blocks] = blocks"
    using assms by simp
  moreover have "2 * of_nat (length blocks) - 2 = (2 * of_nat m :: rat)"
    "2 * of_nat (length blocks) = (2 * of_nat m + 2 :: rat)" "length blocks - 1 = m"
    by (simp_all add: len)
  ultimately show ?thesis by simp
qed

text \<open>
  Claim C10. When the text gives at least one block and the probed duration is less than
  2 seconds times the number of blocks, the smart variant sets the duration of a block to
  2 and the total to twice the block count, and the text it writes shows block \<open>i\<close>
  from \<open>2 * i\<close> to \<open>2 * i + 2\<close> seconds; the last entry of that text ends at twice
  the block count, which is more than the probed duration. The dummy variant does the
  same when 60 is less than twice the block count.
\<close>

theorem two_second_floor_overruns:
  assumes "blocks_of_text text = blocks" "blocks \<noteq> []"
  shows "(audio_duration < 2 * of_nat (length blocks) \<longrightarrow>
            smart_schedule audio_duration (length blocks) = (2, 2 * of_nat (length blocks))
            \<and> smart_align_text_with_audio audio_duration text
                = (SmartComplete (two_second_srt blocks), Some (two_second_srt blocks)))
       \<and> (60 < 2 * (of_nat (length blocks) :: rat) \<longrightarrow>
            dummy_schedule (length blocks) = (2, 2 * of_nat (length blocks))
            \<and> dummy_align_text_with_audio text
                = (DummyComplete (two_second_srt blocks), Some (two_second_srt blocks)))
       \<and> two_second_srt blocks
           = two_second_srt (butlast blocks)
             @ srt_entry_text (length blocks - 1) (2 * of_nat (length blocks) - 2)
                 (2 * of_nat (length blocks)) (last blocks)"
proof -
  obtain chunks where c: "split_into_fixed_chunks text 4 = Inr chunks"
      "group_chunks chunks 2 = Inr blocks" "chunks \<noteq> []"
    using blocks_of_text_unfold [of "text"] assms by metis
  have smart: "smart_schedule audio_duration (length blocks) = (2, 2 * of_nat (length blocks))
      \<and> smart_align_text_with_audio audio_duration text
          = (SmartComplete (two_second_srt blocks), Some (two_second_srt blocks))"
    if "audio_duration < 2 * of_nat (length blocks)"
  proof -
    have s: "smart_schedule audio_duration (length blocks) = (2, 2 * of_nat (length blocks))"
      using that by (simp add: smart_schedule_def)
    show ?thesis
      by (simp add: s smart_align_text_with_audio_def c smart_loop_two_seconds two_second_srt_def
          Let_def)
  qed
  have dummy: "dummy_schedule (length blocks) = (2, 2 * of_nat (length blocks))
      \<and> dummy_align_text_with_audio text
          = (DummyComplete (two_second_srt blocks), Some (two_second_srt blocks))"
    if "60 < 2 * (of_nat (length blocks) :: rat)"
  proof -
    have s: "dummy_schedule (length blocks) = (2, 2 * of_nat (length blocks))"
      using that by (simp add: dummy_schedule_def)
    show ?thesis
      by (simp add: s dummy_align_text_with_audio_def c dummy_loop_eq smart_loop_two_seconds
          two_second_srt_def Let_def)
  qed
  show ?thesis
    using smart dummy two_second_srt_last [OF assms(2)] by blast
qed


theorem two_second_floor_overruns_witness:
  "blocks_of_text ''a b c d e f g h i'' = [[''a b c d'', ''e f g h''], [''i'']]
   \<and> (1::rat) < 2 * of_nat (length [[''a b c d'', ''e f g h''], [''i'']])
   \<and> smart_align_text_with_audio 1 ''a b c d e f g h i''
       = (SmartComplete ''1\<newline>00:00:00,000 --> 00:00:02,000\<newline>a b c d\<newline>e f g h\<newline>\<newline>2\<newline>00:00:02,000 --> 00:00:04,000\<newline>i\<newline>\<newline>'',
          Some ''1\<newline>00:00:00,000 --> 00:00:02,000\<newline>a b c d\<newline>e f g h\<newline>\<newline>2\<newline>00:00:02,000 --> 00:00:04,000\<newline>i\<newline>\<newline>'')
   \<and> length (blocks_of_text (concat (replicate 241 ''a ''))) = 31
   \<and> (60::rat) < 2 * of_nat 31
   \<and> fst (dummy_align_text_with_audio (concat (replicate 241 ''a '')))
       = DummyComplete (two_second_srt (blocks_of_text (concat (replicate 241 ''a ''))))"
proof -
  let ?t = "''a b c d e f g h i''"
  let ?b = "[[''a b c d'', ''e f g h''], [''i'']]"
  let ?u = "concat (replicate 241 ''a '')"
  have b: "blocks_of_text ?t = ?b" by code_simp
  have s: "two_second_srt ?b = ''1\<newline>00:00:00,000 --> 00:00:02,000\<newline>a b c d\<newline>e f g h\<newline>\<newline>2\<newline>00:00:02,000 --> 00:00:04,000\<newline>i\<newline>\<newline>''"
    by code_simp
  have l: "length (blocks_of_text ?u) = 31" by code_simp
  have ne: "?b \<noteq> []" "blocks_of_text ?u \<noteq> []" using l by auto
  have smart: "smart_align_text_with_audio 1 ?t
                 = (SmartComplete (two_second_srt ?b), Some (two_second_srt ?b))"
    using two_second_floor_overruns [OF b ne(1), of 1] by simp
  have dummy: "dummy_align_text_with_audio ?u
                 = (DummyComplete (two_second_srt (blocks_of_text ?u)),
                    Some (two_second_srt (blocks_of_text ?u)))"
    using two_second_floor_overruns [OF refl ne(2), of 1] l by simp
  show ?thesis
    using b smart dummy l by (simp add: s)
qed

end
